theory Spec2Isabelle
  imports Complex_Main "HOL-Library.Sublist" "HOL-Library.Multiset"
begin

section \<open>Python values shared by both modules\<close>

text \<open>
  Exceptions are values. Only the class matters for control flow
  (\<^verbatim>\<open>except RuntimeError\<close> against \<^verbatim>\<open>except Exception\<close>); the message is what
  \<^verbatim>\<open>str(e)\<close> returns. Every class below derives from \<^verbatim>\<open>Exception\<close>.
  \<open>EmptyDatasetError\<close> is the error class named by the specification; no statement of the
  source raises it.
\<close>

datatype exn_class =
    RuntimeError | ValueError | TypeError | IndexError | OSError
  | ZeroDivisionError | EmptyDatasetError

datatype exn = Exn exn_class string

fun exn_cls :: "exn \<Rightarrow> exn_class" where
  "exn_cls (Exn c m) = c"

fun str_of_exn :: "exn \<Rightarrow> string" where
  "str_of_exn (Exn c m) = m"

text \<open>Sequencing of fallible steps: the first raise ends the computation.\<close>

fun bind_exn :: "exn + 'a \<Rightarrow> ('a \<Rightarrow> exn + 'b) \<Rightarrow> exn + 'b" where
  "bind_exn (Inl e) f = Inl e"
| "bind_exn (Inr x) f = f x"


section \<open>cnn.py: the dataset index\<close>

text \<open>
  The part of the file system that \<^verbatim>\<open>SimpleDataset.__init__\<close> looks at: a path is
  absent, a file, or a directory with the names \<^verbatim>\<open>os.listdir\<close> returns (in the order it
  returns them). \<^verbatim>\<open>os.path.exists\<close> is true for files as well as directories;
  \<^verbatim>\<open>os.listdir\<close> of a file raises \<^verbatim>\<open>NotADirectoryError\<close>, a subclass of \<^verbatim>\<open>OSError\<close>.
\<close>

datatype fsnode = File | Dir "string list"

type_synonym filesystem = "string \<Rightarrow> fsnode option"

text \<open>\<^verbatim>\<open>os.path.join(a, b)\<close> on POSIX.\<close>

definition path_join :: "string \<Rightarrow> string \<Rightarrow> string" where
  "path_join a b =
     (if prefix ''/'' b then b
      else if a = [] \<or> suffix ''/'' a then a @ b
      else a @ ''/'' @ b)"

definition path_exists :: "filesystem \<Rightarrow> string \<Rightarrow> bool" where
  "path_exists fs p = (fs p \<noteq> None)"

definition listdir :: "filesystem \<Rightarrow> string \<Rightarrow> exn + string list" where
  "listdir fs p =
     (case fs p of
        Some (Dir names) \<Rightarrow> Inr names
      | Some File \<Rightarrow> Inl (Exn OSError ''Not a directory'')
      | None \<Rightarrow> Inl (Exn OSError ''No such file or directory''))"

text \<open>\<^verbatim>\<open>img_file.endswith(('.jpg', '.jpeg', '.png'))\<close>\<close>

definition is_image_file :: "string \<Rightarrow> bool" where
  "is_image_file f = (suffix ''.jpg'' f \<or> suffix ''.jpeg'' f \<or> suffix ''.png'' f)"

record 'tr SimpleDataset =
  transform :: 'tr
  images :: "string list"
  labels :: "nat list"
  classes :: "string list"

text \<open>The inner loop over the listing of one class directory (lines 29 to 32).\<close>

fun scan_files ::
  "string \<Rightarrow> nat \<Rightarrow> string list \<Rightarrow> string list \<times> nat list \<Rightarrow> string list \<times> nat list" where
  "scan_files class_path class_idx [] acc = acc"
| "scan_files class_path class_idx (img_file # rest) (imgs, labs) =
     (if is_image_file img_file
      then scan_files class_path class_idx rest
             (imgs @ [path_join class_path img_file], labs @ [class_idx])
      else scan_files class_path class_idx rest (imgs, labs))"

text \<open>The outer loop over \<^verbatim>\<open>enumerate(self.classes)\<close> (lines 26 to 32).\<close>

fun scan_classes ::
  "filesystem \<Rightarrow> string \<Rightarrow> (nat \<times> string) list \<Rightarrow> string list \<times> nat list
     \<Rightarrow> exn + (string list \<times> nat list)" where
  "scan_classes fs data_dir [] acc = Inr acc"
| "scan_classes fs data_dir ((class_idx, class_name) # rest) acc =
     (let class_path = path_join data_dir class_name in
      if path_exists fs class_path
      then bind_exn (listdir fs class_path)
             (\<lambda>names. scan_classes fs data_dir rest (scan_files class_path class_idx names acc))
      else scan_classes fs data_dir rest acc)"

definition SimpleDataset_init ::
  "filesystem \<Rightarrow> string \<Rightarrow> string list \<Rightarrow> 'tr \<Rightarrow> exn + 'tr SimpleDataset" where
  "SimpleDataset_init fs data_dir cls tr =
     bind_exn (scan_classes fs data_dir (enumerate 0 cls) ([], []))
       (\<lambda>(imgs, labs). Inr \<lparr>transform = tr, images = imgs, labels = labs, classes = cls\<rparr>)"

definition SimpleDataset_len :: "'tr SimpleDataset \<Rightarrow> nat" where
  "SimpleDataset_len ds = length (images ds)"

section \<open>cnn.py: preprocessing pipelines\<close>

text \<open>
  A \<^verbatim>\<open>transforms.Compose\<close> object is the list of its steps. The repository only composes
  torchvision's transforms; what each does to the pixels is a parameter of the model
  (\<open>fixed_step\<close>, \<open>random_step\<close> below). A floating-point number is represented by the
  real number it denotes. The floating-point arithmetic of the libraries (the forward pass,
  \<^verbatim>\<open>torch.softmax\<close>) is a parameter of the model as well, rounding included.
\<close>

datatype tv_step =
    Resize nat nat
  | RandomCrop nat
  | RandomHorizontalFlip real
  | RandomRotation real
  | ColorJitter real real real real
  | RandomGrayscale real
  | ToTensor
  | Normalize "real list" "real list"

text \<open>The steps that draw from the random number generator when they are applied.\<close>

fun randomized :: "tv_step \<Rightarrow> bool" where
  "randomized (Resize h w) = False"
| "randomized (RandomCrop n) = True"
| "randomized (RandomHorizontalFlip p) = True"
| "randomized (RandomRotation d) = True"
| "randomized (ColorJitter b c s h) = True"
| "randomized (RandomGrayscale p) = True"
| "randomized ToTensor = False"
| "randomized (Normalize mean std) = False"

fun is_crop :: "tv_step \<Rightarrow> bool" where
  "is_crop (RandomCrop n) = True"
| "is_crop s = False"

text \<open>
  Network weights as \<^verbatim>\<open>state_dict()\<close> returns them and \<^verbatim>\<open>torch.save\<close> writes them: an
  ordered dictionary from entry names to tensors.
\<close>

record tensor =
  t_shape :: "nat list"
  t_data :: "real list"

type_synonym state_dict = "(string \<times> tensor) list"

text \<open>
  The \<^verbatim>\<open>fc\<close> attribute of the ResNet: \<^verbatim>\<open>nn.Linear(in_features, out_features)\<close>, or
  \<^verbatim>\<open>nn.Sequential(nn.Dropout(p), nn.Linear(in_features, out_features))\<close>.
\<close>

datatype fc_head = Linear nat nat | Dropout_Linear real nat nat

fun in_features :: "fc_head \<Rightarrow> nat" where
  "in_features (Linear i out) = i"
| "in_features (Dropout_Linear p i out) = i"

fun out_features :: "fc_head \<Rightarrow> nat" where
  "out_features (Linear i out) = out"
| "out_features (Dropout_Linear p i out) = out"

record network =
  fc :: fc_head
  weights :: "state_dict option"
  training :: bool

text \<open>
  Everything outside the repository that the two modules call: PIL's decoding, torchvision's
  transforms on a value of type \<open>'v\<close> (a PIL image before \<open>ToTensor\<close>, a tensor after it) with
  random generator states of type \<open>'r\<close>, the forward pass of a network (the score of output
  unit \<open>i\<close>), what \<^verbatim>\<open>torch.softmax(outputs, dim=1)\<close> returns on the single row of scores,
  the entries (name and shape) and the width of the features of the ResNet-18 that
  \<^verbatim>\<open>models.resnet18\<close> builds, and what \<^verbatim>\<open>torch.load('best_model.pth')\<close> returns or raises.
\<close>

record ('v, 'r) world =
  Image_open :: "string \<Rightarrow> exn + 'v"
  Image_open_bytes :: "nat list \<Rightarrow> exn + 'v"
  convert_RGB :: "'v \<Rightarrow> exn + 'v"
  fixed_step :: "tv_step \<Rightarrow> 'v \<Rightarrow> 'v"
  random_step :: "tv_step \<Rightarrow> 'r \<Rightarrow> 'v \<Rightarrow> 'v \<times> 'r"
  forward :: "network \<Rightarrow> 'v \<Rightarrow> nat \<Rightarrow> real"
  torch_softmax :: "real list \<Rightarrow> real list"
  resnet18_backbone :: "(string \<times> nat list) list"
  resnet18_in_features :: nat
  cuda_is_available :: bool
  torch_load :: "exn + state_dict"

text \<open>One step of a pipeline, and \<^verbatim>\<open>Compose.__call__\<close>: the steps in order.\<close>

definition apply_step ::
  "('v, 'r) world \<Rightarrow> tv_step \<Rightarrow> 'v \<times> 'r \<Rightarrow> 'v \<times> 'r" where
  "apply_step w s = (\<lambda>(v, r). if randomized s then random_step w s r v else (fixed_step w s v, r))"

definition Compose_call ::
  "('v, 'r) world \<Rightarrow> tv_step list \<Rightarrow> 'v \<times> 'r \<Rightarrow> 'v \<times> 'r" where
  "Compose_call w steps vr = fold (apply_step w) steps vr"

text \<open>\<^verbatim>\<open>self.transform\<close> of \<^verbatim>\<open>Model.__init__\<close> (lines 66 to 75).\<close>

definition Model_transform :: "tv_step list" where
  "Model_transform =
     [Resize 256 256,
      RandomCrop 224,
      RandomHorizontalFlip 0.5,
      RandomRotation 15,
      ColorJitter 0.4 0.4 0.4 0.1,
      RandomGrayscale 0.1,
      ToTensor,
      Normalize [0.485, 0.456, 0.406] [0.229, 0.224, 0.225]]"


section \<open>cnn.py: the predicted index\<close>

text \<open>
  \<^verbatim>\<open>torch.max(outputs, 1)\<close> returns the index of the first maximal score of the row.
\<close>

fun argmax_from :: "real list \<Rightarrow> nat \<Rightarrow> nat \<Rightarrow> real \<Rightarrow> nat" where
  "argmax_from [] i best_i best = best_i"
| "argmax_from (x # xs) i best_i best =
     (if x > best then argmax_from xs (Suc i) i x else argmax_from xs (Suc i) best_i best)"

definition argmax :: "real list \<Rightarrow> nat" where
  "argmax xs = (case xs of [] \<Rightarrow> 0 | x # rest \<Rightarrow> argmax_from rest 1 0 x)"

text \<open>\<^verbatim>\<open>xs[i]\<close> for a non-negative index: out of range raises \<^verbatim>\<open>IndexError\<close>.\<close>

definition list_get :: "'a list \<Rightarrow> nat \<Rightarrow> exn + 'a" where
  "list_get xs i =
     (if i < length xs then Inr (xs ! i) else Inl (Exn IndexError ''list index out of range''))"


section \<open>cnn.py: the model object, freezing, splitting\<close>

record param =
  pname :: string
  requires_grad :: bool

text \<open>
  \<^verbatim>\<open>int(train_ratio * len(dataset))\<close> and the remainder (lines 98 to 101). The product is a
  float in the source; for every length below \<open>2 ^ 50\<close> its truncation is the floor of the
  exact product.
\<close>

definition train_ratio :: real where
  "train_ratio = 0.8"

definition train_size_of :: "nat \<Rightarrow> nat" where
  "train_size_of n = nat \<lfloor>train_ratio * real n\<rfloor>"

definition test_size_of :: "nat \<Rightarrow> nat" where
  "test_size_of n = n - train_size_of n"

text \<open>
  \<^verbatim>\<open>torch.utils.data.random_split(dataset, [train_size, test_size])\<close>: one random permutation
  of the positions of the dataset is drawn (\<open>perm\<close>, the outcome of \<^verbatim>\<open>randperm\<close>), and cut
  into consecutive pieces of the given lengths. Each subset is the list of positions it holds.
\<close>

definition random_split :: "nat list \<Rightarrow> nat \<Rightarrow> nat \<Rightarrow> nat list \<times> nat list" where
  "random_split perm a b = (take a perm, take b (drop a perm))"

record Model =
  dir_path :: string
  m_classes :: "string list"
  m_model :: network
  m_params :: "param list"
  m_transform :: "tv_step list"
  m_dataset :: "tv_step list SimpleDataset"
  train_loader :: "nat list"
  val_loader :: "nat list"

text \<open>
  \<^verbatim>\<open>setup_data\<close> (lines 95 to 109); \<open>randperm n\<close> is the permutation the generator draws for
  \<open>n\<close> positions. The loaders are represented by the subsets they iterate over.
\<close>

definition setup_data ::
  "filesystem \<Rightarrow> (nat \<Rightarrow> nat list) \<Rightarrow> string \<Rightarrow> string list \<Rightarrow> tv_step list
     \<Rightarrow> exn + (tv_step list SimpleDataset \<times> nat list \<times> nat list)" where
  "setup_data fs randperm dir cls tr =
     bind_exn (SimpleDataset_init fs dir cls tr)
       (\<lambda>dataset.
          let n = SimpleDataset_len dataset;
              train_size = train_size_of n;
              test_size = n - train_size;
              (train, test) = random_split (randperm n) train_size test_size
          in Inr (dataset, train, test))"

text \<open>
  \<^verbatim>\<open>Model.__init__\<close> (lines 50 to 79). \<open>backbone\<close> is the list of parameter names that
  torchvision's ResNet-18 registers before its \<^verbatim>\<open>fc\<close> attribute, in order, and \<open>fc_in\<close> the
  \<^verbatim>\<open>in_features\<close> of that attribute; the pretrained weights are not represented. Replacing
  \<^verbatim>\<open>fc\<close> by \<^verbatim>\<open>Sequential(Dropout(0.5), Linear(in_features, 3))\<close> registers the two parameters
  of the linear layer under \<^verbatim>\<open>fc.1\<close>. Every parameter starts trainable.
\<close>

definition Model_init ::
  "filesystem \<Rightarrow> (nat \<Rightarrow> nat list) \<Rightarrow> string list \<Rightarrow> nat \<Rightarrow> string \<Rightarrow> string list
     \<Rightarrow> exn + Model" where
  "Model_init fs randperm backbone fc_in dir cls =
     bind_exn (setup_data fs randperm dir cls Model_transform)
       (\<lambda>(dataset, train, test).
          Inr \<lparr>dir_path = dir, m_classes = cls,
               m_model = \<lparr>fc = Dropout_Linear 0.5 fc_in 3, weights = None, training = True\<rparr>,
               m_params = map (\<lambda>n. \<lparr>pname = n, requires_grad = True\<rparr>)
                            (backbone @ [''fc.1.weight'', ''fc.1.bias'']),
               m_transform = Model_transform,
               m_dataset = dataset,
               train_loader = train, val_loader = test\<rparr>)"

text \<open>\<^verbatim>\<open>freeze_layers\<close> (lines 81 to 88): \<^verbatim>\<open>'layer4' in name or 'fc' in name\<close>.\<close>

definition freeze_layers :: "Model \<Rightarrow> Model" where
  "freeze_layers m =
     m\<lparr>m_params :=
         map (\<lambda>p. p\<lparr>requires_grad := (sublist ''layer4'' (pname p) \<or> sublist ''fc'' (pname p))\<rparr>)
           (m_params m)\<rparr>"

text \<open>An optimizer holds the parameters it was constructed over, and its learning rate.\<close>

record optimizer =
  opt_params :: "string list"
  lr :: real

definition Adam :: "param list \<Rightarrow> real \<Rightarrow> optimizer" where
  "Adam ps rate = \<lparr>opt_params = map pname ps, lr = rate\<rparr>"

text \<open>The first three statements of \<^verbatim>\<open>Model.train\<close> (lines 114 to 116).\<close>

definition train_setup :: "Model \<Rightarrow> Model \<times> optimizer" where
  "train_setup m = (let m' = freeze_layers m in (m', Adam (m_params m') 0.0001))"

text \<open>The parameters that are trainable, by name.\<close>

definition trainable_names :: "Model \<Rightarrow> string list" where
  "trainable_names m = map pname (filter requires_grad (m_params m))"


section \<open>cnn.py: the training loop\<close>

text \<open>
  What one epoch observes. The optimisation itself is outside the model: an epoch is given by
  the batches of its two passes, each a pair of \<^verbatim>\<open>labels.size(0)\<close> and the number of correct
  predictions in the batch, and by the \<^verbatim>\<open>state_dict()\<close> of the network at its end.
\<close>

record epoch =
  train_batches :: "(nat \<times> nat) list"
  val_batches :: "(nat \<times> nat) list"
  state_dict_end :: state_dict

text \<open>The running sums of a pass: \<^verbatim>\<open>total += labels.size(0)\<close>, \<^verbatim>\<open>correct += ...\<close>.\<close>

fun run_batches :: "(nat \<times> nat) list \<Rightarrow> nat \<times> nat \<Rightarrow> nat \<times> nat" where
  "run_batches [] acc = acc"
| "run_batches ((batch_len, hits) # rest) (n_correct, n_total) =
     run_batches rest (n_correct + hits, n_total + batch_len)"

text \<open>\<^verbatim>\<open>100 * correct / total\<close>: true division, which raises on a zero divisor.\<close>

definition accuracy :: "nat \<Rightarrow> nat \<Rightarrow> exn + real" where
  "accuracy n_correct n_total =
     (if n_total = 0 then Inl (Exn ZeroDivisionError ''division by zero'')
      else Inr (100 * real n_correct / real n_total))"

definition val_acc_of :: "epoch \<Rightarrow> exn + real" where
  "val_acc_of ep = (let (val_correct, val_total) = run_batches (val_batches ep) (0, 0)
                    in accuracy val_correct val_total)"

definition train_acc_of :: "epoch \<Rightarrow> exn + real" where
  "train_acc_of ep = (let (train_correct, train_total) = run_batches (train_batches ep) (0, 0)
                      in accuracy train_correct train_total)"

text \<open>
  The state of a run: the best-value record, the content of \<^verbatim>\<open>best_model.pth\<close> (\<open>None\<close> when
  the file does not exist), and the number of \<^verbatim>\<open>torch.save\<close> calls made so far.
\<close>

record train_state =
  best_acc :: real
  checkpoint :: "state_dict option"
  saves :: nat

text \<open>The body of the epoch loop (lines 120 to 173).\<close>

definition epoch_body :: "train_state \<Rightarrow> epoch \<Rightarrow> exn + train_state" where
  "epoch_body st ep =
     bind_exn (train_acc_of ep) (\<lambda>train_acc.
     bind_exn (val_acc_of ep) (\<lambda>val_acc.
       if val_acc > best_acc st
       then Inr (st\<lparr>best_acc := val_acc,
                    checkpoint := Some (state_dict_end ep),
                    saves := saves st + 1\<rparr>)
       else Inr st))"

text \<open>
  \<^verbatim>\<open>for i in range(epochs)\<close>: an exception ends the run and leaves the state of the last
  completed epoch behind.
\<close>

fun epoch_loop :: "train_state \<Rightarrow> epoch list \<Rightarrow> train_state \<times> exn option" where
  "epoch_loop st [] = (st, None)"
| "epoch_loop st (ep # rest) =
     (case epoch_body st ep of
        Inl e \<Rightarrow> (st, Some e)
      | Inr st' \<Rightarrow> epoch_loop st' rest)"

text \<open>
  \<^verbatim>\<open>Model.train\<close>: \<open>on_disk\<close> is the content of \<^verbatim>\<open>best_model.pth\<close> before the run, and the
  list of epochs has \<^verbatim>\<open>epochs\<close> elements.
\<close>

definition train ::
  "Model \<Rightarrow> state_dict option \<Rightarrow> epoch list \<Rightarrow> (Model \<times> optimizer) \<times> train_state \<times> exn option" where
  "train m on_disk eps =
     (train_setup m, epoch_loop \<lparr>best_acc = 0, checkpoint = on_disk, saves = 0\<rparr> eps)"


section \<open>cnn.py: Model.predict\<close>

text \<open>The row of scores of a network: one per output unit of its head.\<close>

definition net_outputs :: "('v, 'r) world \<Rightarrow> network \<Rightarrow> 'v \<Rightarrow> real list" where
  "net_outputs w net x = map (forward w net x) [0..<out_features (fc net)]"

text \<open>
  \<^verbatim>\<open>Model.predict\<close> (lines 177 to 195); \<open>r\<close> is the state of the random generator when it is
  called, and the state after the call is returned with the result.
\<close>

definition Model_predict ::
  "('v, 'r) world \<Rightarrow> Model \<Rightarrow> 'r \<Rightarrow> string \<Rightarrow> exn + ((string \<times> real) \<times> 'r)" where
  "Model_predict w m r image_path =
     bind_exn (Image_open w image_path) (\<lambda>opened.
     bind_exn (convert_RGB w opened) (\<lambda>img.
       let (x, r') = Compose_call w (m_transform m) (img, r);
           outputs = net_outputs w ((m_model m)\<lparr>training := False\<rparr>) x;
           predicted = argmax outputs;
           probs = torch_softmax w outputs
       in bind_exn (list_get (m_classes m) predicted) (\<lambda>result.
          bind_exn (list_get probs predicted) (\<lambda>confidence.
            Inr ((result, confidence), r')))))"


section \<open>outputs.py: the inference service\<close>

datatype device = Cuda | Cpu

text \<open>
  The module's globals, the state of the random generator of the process, and a counter of
  the calls of \<^verbatim>\<open>torch.load\<close> made so far (not a variable of the source).
\<close>

record 'r service =
  MODEL :: "network option"
  DEVICE :: "device option"
  TRANSFORM :: "tv_step list option"
  rng :: 'r
  reads :: nat

definition cold :: "'r \<Rightarrow> 'r service" where
  "cold r = \<lparr>MODEL = None, DEVICE = None, TRANSFORM = None, rng = r, reads = 0\<rparr>"

text \<open>\<^verbatim>\<open>models.resnet18(weights=None)\<close>: a head of 1000 classes, freshly initialised.\<close>

definition resnet18 :: "('v, 'r) world \<Rightarrow> network" where
  "resnet18 w = \<lparr>fc = Linear (resnet18_in_features w) 1000, weights = None, training = True\<rparr>"

text \<open>The entries \<^verbatim>\<open>load_state_dict\<close> expects, by the shape of the head.\<close>

fun head_entries :: "fc_head \<Rightarrow> (string \<times> nat list) list" where
  "head_entries (Linear i out) = [(''fc.weight'', [out, i]), (''fc.bias'', [out])]"
| "head_entries (Dropout_Linear p i out) = [(''fc.1.weight'', [out, i]), (''fc.1.bias'', [out])]"

definition expected_entries :: "('v, 'r) world \<Rightarrow> network \<Rightarrow> (string \<times> nat list) list" where
  "expected_entries w net = resnet18_backbone w @ head_entries (fc net)"

text \<open>
  \<^verbatim>\<open>load_state_dict\<close> in its default strict mode: a missing entry, an unexpected entry or an
  entry of another shape raises \<^verbatim>\<open>RuntimeError\<close>.
\<close>

definition load_state_dict :: "('v, 'r) world \<Rightarrow> network \<Rightarrow> state_dict \<Rightarrow> exn + network" where
  "load_state_dict w net sd =
     (let found = set (map (\<lambda>(k, t). (k, t_shape t)) sd);
          expected = set (expected_entries w net)
      in if expected \<subseteq> found \<and> found \<subseteq> expected
         then Inr (net\<lparr>weights := Some sd\<rparr>)
         else Inl (Exn RuntimeError ''Error(s) in loading state_dict for ResNet''))"

text \<open>\<^verbatim>\<open>TRANSFORM\<close> of \<^verbatim>\<open>load_model\<close> (lines 36 to 40).\<close>

definition inference_transform :: "tv_step list" where
  "inference_transform =
     [Resize 224 224,
      ToTensor,
      Normalize [0.485, 0.456, 0.406] [0.229, 0.224, 0.225]]"

text \<open>Lines 33 to 40: reached when one of the two attempts has restored the weights.\<close>

definition finish_load :: "'r service \<Rightarrow> network \<Rightarrow> 'r service" where
  "finish_load st net =
     st\<lparr>MODEL := Some (net\<lparr>training := False\<rparr>), TRANSFORM := Some inference_transform\<rparr>"

text \<open>
  \<^verbatim>\<open>load_model\<close>: the exception it raises, if any, and the globals it leaves. The assignment
  of line 21 comes before anything that can fail, so \<^verbatim>\<open>MODEL\<close> is set even when the
  function raises.
\<close>

definition load_model :: "('v, 'r) world \<Rightarrow> 'r service \<Rightarrow> exn option \<times> 'r service" where
  "load_model w st =
     (case MODEL st of
        Some loaded \<Rightarrow> (None, st)
      | None \<Rightarrow>
          let st1 = st\<lparr>DEVICE := Some (if cuda_is_available w then Cuda else Cpu)\<rparr>;
              net0 = resnet18 w;
              net1 = net0\<lparr>fc := Linear (in_features (fc net0)) 3\<rparr>;
              st2 = st1\<lparr>MODEL := Some net1, reads := reads st1 + 1\<rparr>
          in (case bind_exn (torch_load w) (load_state_dict w net1) of
                Inr net \<Rightarrow> (None, finish_load st2 net)
              | Inl e \<Rightarrow>
                  if exn_cls e = RuntimeError
                  then
                    let net2 = net1\<lparr>fc := Dropout_Linear 0.5 (in_features (fc net1)) 3\<rparr>;
                        st3 = st2\<lparr>MODEL := Some net2, reads := reads st2 + 1\<rparr>
                    in (case bind_exn (torch_load w) (load_state_dict w net2) of
                          Inr net \<Rightarrow> (None, finish_load st3 net)
                        | Inl e2 \<Rightarrow> (Some e2, st3))
                  else (Some e, st2)))"

text \<open>
  The argument \<^verbatim>\<open>image_input\<close> by its run-time type: a \<^verbatim>\<open>str\<close>, a \<^verbatim>\<open>PIL.Image\<close>, an
  \<^verbatim>\<open>io.BytesIO\<close>, or anything else.
\<close>

datatype 'v image_input = PathInput string | ImageInput 'v | BytesInput "nat list" | OtherInput

text \<open>Lines 64 to 71.\<close>

definition read_image :: "('v, 'r) world \<Rightarrow> 'v image_input \<Rightarrow> exn + 'v" where
  "read_image w image_input =
     (case image_input of
        PathInput p \<Rightarrow> bind_exn (Image_open w p) (convert_RGB w)
      | ImageInput im \<Rightarrow> convert_RGB w im
      | BytesInput b \<Rightarrow> bind_exn (Image_open_bytes w b) (convert_RGB w)
      | OtherInput \<Rightarrow> Inl (Exn ValueError ''Unsupported image input type''))"

text \<open>
  The values of the result dictionary, and dictionaries as association lists in insertion
  order: \<^verbatim>\<open>d[k] = v\<close> replaces the value of a key that is present and appends a new key.
\<close>

datatype pyval = PyNone | PyStr string | PyFloat real | PyDict "(string \<times> real) list"

type_synonym pydict = "(string \<times> pyval) list"

fun dict_set :: "('k \<times> 'a) list \<Rightarrow> 'k \<Rightarrow> 'a \<Rightarrow> ('k \<times> 'a) list" where
  "dict_set [] k v = [(k, v)]"
| "dict_set ((k', v') # rest) k v =
     (if k' = k then (k, v) # rest else (k', v') # dict_set rest k v)"

text \<open>\<^verbatim>\<open>{class_name: prob.item() for class_name, prob in zip(classes, probabilities[0])}\<close>\<close>

definition all_probs_of :: "string list \<Rightarrow> real list \<Rightarrow> (string \<times> real) list" where
  "all_probs_of cls probabilities = fold (\<lambda>(class_name, prob) d. dict_set d class_name prob)
                                      (zip cls probabilities) []"

definition dict_keys :: "('k \<times> 'a) list \<Rightarrow> 'k set" where
  "dict_keys d = fst ` set d"

definition dict_get :: "('k \<times> 'a) list \<Rightarrow> 'k \<Rightarrow> 'a option" where
  "dict_get d k = map_of d k"

text \<open>
  The body of the \<^verbatim>\<open>try\<close> statement of \<^verbatim>\<open>predict\<close> (lines 63 to 92), run on the globals
  \<open>st\<close>: the dictionary it returns or the exception it raises, and the globals after it.
  Calling \<^verbatim>\<open>TRANSFORM\<close> or \<^verbatim>\<open>MODEL\<close> while it is \<^verbatim>\<open>None\<close> raises \<^verbatim>\<open>TypeError\<close>.
\<close>

definition not_callable :: exn where
  "not_callable = Exn TypeError ([CHR 0x27] @ ''NoneType'' @ [CHR 0x27] @ '' object is not callable'')"

definition predict_try ::
  "('v, 'r) world \<Rightarrow> 'r service \<Rightarrow> 'v image_input \<Rightarrow> string list \<Rightarrow> (exn + pydict) \<times> 'r service" where
  "predict_try w st image_input cls =
     (case read_image w image_input of
        Inl e \<Rightarrow> (Inl e, st)
      | Inr img \<Rightarrow>
         (case TRANSFORM st of
            None \<Rightarrow> (Inl not_callable, st)
          | Some tf \<Rightarrow>
             let (image_tensor, r') = Compose_call w tf (img, rng st);
                 st' = st\<lparr>rng := r'\<rparr>
             in (case MODEL st' of
                   None \<Rightarrow> (Inl not_callable, st')
                 | Some net \<Rightarrow>
                    let outputs = net_outputs w net image_tensor;
                        probabilities = torch_softmax w outputs;
                        predicted = argmax outputs
                    in (bind_exn (list_get cls predicted) (\<lambda>predicted_class.
                        bind_exn (list_get probabilities predicted) (\<lambda>confidence.
                          Inr [(''prediction'', PyStr predicted_class),
                               (''confidence'', PyFloat confidence),
                               (''all_probabilities'', PyDict (all_probs_of cls probabilities))])),
                        st'))))"

text \<open>The dictionary of the \<^verbatim>\<open>except Exception\<close> clause (lines 94 to 100).\<close>

definition error_result :: "exn \<Rightarrow> pydict" where
  "error_result e =
     [(''error'', PyStr (str_of_exn e)),
      (''prediction'', PyNone),
      (''confidence'', PyFloat 0.0),
      (''all_probabilities'', PyDict [])]"

text \<open>
  \<^verbatim>\<open>predict\<close>: \<open>Inl\<close> is an exception that leaves the function, \<open>Inr\<close> the dictionary it
  returns. The call of \<^verbatim>\<open>load_model\<close> (lines 59 and 60) stands before the \<^verbatim>\<open>try\<close>.
\<close>

definition predict ::
  "('v, 'r) world \<Rightarrow> 'r service \<Rightarrow> 'v image_input \<Rightarrow> string list \<Rightarrow> (exn + pydict) \<times> 'r service" where
  "predict w st image_input cls =
     (case (if MODEL st = None then load_model w st else (None, st)) of
        (Some e, st1) \<Rightarrow> (Inl e, st1)
      | (None, st1) \<Rightarrow>
         (case predict_try w st1 image_input cls of
            (Inr result, st2) \<Rightarrow> (Inr result, st2)
          | (Inl e, st2) \<Rightarrow> (Inr (error_result e), st2)))"

text \<open>\<^verbatim>\<open>main\<close> (lines 103 to 115) prints the fields of the result and returns it.\<close>

definition main :: 
  "('v, 'r) world \<Rightarrow> 'r service \<Rightarrow> 'v image_input \<Rightarrow> string list \<Rightarrow> (exn + pydict) \<times> 'r service" where
  "main w st image_obj cls = predict w st image_obj cls"


section \<open>Derived notions and example values\<close>

text \<open>The samples of a dataset: each path with its class index.\<close>

definition samples :: "'tr SimpleDataset \<Rightarrow> (string \<times> nat) list" where
  "samples ds = zip (images ds) (labels ds)"

text \<open>
  No class contributes a sample: each class directory is missing, or is a directory that lists
  no file with an image extension.
\<close>

definition no_samples :: "filesystem \<Rightarrow> string \<Rightarrow> string list \<Rightarrow> bool" where
  "no_samples fs dir cls =
     list_all (\<lambda>c. case fs (path_join dir c) of
                     None \<Rightarrow> True
                   | Some File \<Rightarrow> False
                   | Some (Dir names) \<Rightarrow> list_all (\<lambda>f. \<not> is_image_file f) names) cls"

text \<open>The validation accuracy an epoch reports (zero stands in when it raises).\<close>

definition val_acc_value :: "epoch \<Rightarrow> real" where
  "val_acc_value ep = (case val_acc_of ep of Inr a \<Rightarrow> a | Inl e \<Rightarrow> 0)"

text \<open>
  The globals after the first two lines of \<^verbatim>\<open>predict\<close>
  (\<^verbatim>\<open>if MODEL is None: load_model()\<close>), with the exception that call raises, if any.
\<close>

definition after_load :: "('v, 'r) world \<Rightarrow> 'r service \<Rightarrow> exn option \<times> 'r service" where
  "after_load w st = (if MODEL st = None then load_model w st else (None, st))"

text \<open>
  The globals as a completed \<^verbatim>\<open>load_model\<close> leaves them: a network with the three-unit
  head and the inference pipeline.
\<close>

definition initialised :: "'r service \<Rightarrow> bool" where
  "initialised st =
     (case MODEL st of
        None \<Rightarrow> False
      | Some net \<Rightarrow> out_features (fc net) = 3 \<and> TRANSFORM st = Some inference_transform)"


text \<open>
  The softmax function of the real numbers, which \<^verbatim>\<open>torch.softmax\<close> computes in
  floating-point arithmetic.
\<close>

definition exact_softmax :: "real list \<Rightarrow> real list" where
  "exact_softmax xs = map (\<lambda>x. exp x / sum_list (map exp xs)) xs"

text \<open>
  What is required of the row \<open>ps\<close> that \<^verbatim>\<open>torch.softmax\<close> returns for the row \<open>xs\<close> of
  scores: one number per score, each within \<open>1/100000\<close> of the exact softmax, and a score that
  is not smaller does not get a smaller number. Single-precision rounding stays within these
  bounds: its error is of the order of \<open>1/10000000\<close>, and it may make the numbers of two
  different scores equal, but does not swap them.
\<close>

definition softmax_contract :: "real list \<Rightarrow> real list \<Rightarrow> bool" where
  "softmax_contract xs ps =
     (length ps = length xs \<and>
      list_all (\<lambda>(p, s). \<bar>p - s\<bar> \<le> 1 / 100000) (zip ps (exact_softmax xs)) \<and>
      list_all (\<lambda>(x, p). list_all (\<lambda>(y, q). x \<le> y \<longrightarrow> p \<le> q) (zip xs ps)) (zip xs ps))"

text \<open>
  Example values. The parameter names of torchvision's ResNet-18 before its \<^verbatim>\<open>fc\<close>
  attribute, in registration order.
\<close>

definition resnet18_parameter_names :: "string list" where
  "resnet18_parameter_names =
     [
      ''conv1.weight'', ''bn1.weight'', ''bn1.bias'', ''layer1.0.conv1.weight'',
      ''layer1.0.bn1.weight'', ''layer1.0.bn1.bias'', ''layer1.0.conv2.weight'',
      ''layer1.0.bn2.weight'', ''layer1.0.bn2.bias'', ''layer1.1.conv1.weight'',
      ''layer1.1.bn1.weight'', ''layer1.1.bn1.bias'', ''layer1.1.conv2.weight'',
      ''layer1.1.bn2.weight'', ''layer1.1.bn2.bias'', ''layer2.0.conv1.weight'',
      ''layer2.0.bn1.weight'', ''layer2.0.bn1.bias'', ''layer2.0.conv2.weight'',
      ''layer2.0.bn2.weight'', ''layer2.0.bn2.bias'', ''layer2.0.downsample.0.weight'',
      ''layer2.0.downsample.1.weight'', ''layer2.0.downsample.1.bias'',
      ''layer2.1.conv1.weight'', ''layer2.1.bn1.weight'', ''layer2.1.bn1.bias'',
      ''layer2.1.conv2.weight'', ''layer2.1.bn2.weight'', ''layer2.1.bn2.bias'',
      ''layer3.0.conv1.weight'', ''layer3.0.bn1.weight'', ''layer3.0.bn1.bias'',
      ''layer3.0.conv2.weight'', ''layer3.0.bn2.weight'', ''layer3.0.bn2.bias'',
      ''layer3.0.downsample.0.weight'', ''layer3.0.downsample.1.weight'',
      ''layer3.0.downsample.1.bias'', ''layer3.1.conv1.weight'', ''layer3.1.bn1.weight'',
      ''layer3.1.bn1.bias'', ''layer3.1.conv2.weight'', ''layer3.1.bn2.weight'',
      ''layer3.1.bn2.bias'', ''layer4.0.conv1.weight'', ''layer4.0.bn1.weight'',
      ''layer4.0.bn1.bias'', ''layer4.0.conv2.weight'', ''layer4.0.bn2.weight'',
      ''layer4.0.bn2.bias'', ''layer4.0.downsample.0.weight'',
      ''layer4.0.downsample.1.weight'', ''layer4.0.downsample.1.bias'',
      ''layer4.1.conv1.weight'', ''layer4.1.bn1.weight'', ''layer4.1.bn1.bias'',
      ''layer4.1.conv2.weight'', ''layer4.1.bn2.weight'', ''layer4.1.bn2.bias'']"

text \<open>
  A dataset directory with three populated class directories and a plain file, and one whose
  class directories exist and hold no image (as \<^verbatim>\<open>os.makedirs\<close> of the training script
  leaves them).
\<close>

definition example_fs :: filesystem where
  "example_fs =
     [''data/A'' \<mapsto> Dir [''1.jpg'', ''2.jpeg'', ''notes.txt'', ''3.png''],
      ''data/B'' \<mapsto> Dir [''x.png'', ''y.JPG'', ''z.jpg''],
      ''data/C'' \<mapsto> Dir [''c.png''],
      ''data/README'' \<mapsto> File]"

definition empty_fs :: filesystem where
  "empty_fs =
     [''data/Safe'' \<mapsto> Dir [],
      ''data/Cautious'' \<mapsto> Dir [''README.txt''],
      ''data/Dangerous'' \<mapsto> Dir []]"

definition example_dataset :: "tv_step list SimpleDataset" where
  "example_dataset =
     \<lparr>transform = Model_transform,
      images = [''data/A/1.jpg'', ''data/A/2.jpeg'', ''data/A/3.png'',
                ''data/B/x.png'', ''data/B/z.jpg'', ''data/C/c.png''],
      labels = [0, 0, 0, 1, 1, 2],
      classes = [''A'', ''B'', ''C'']\<rparr>"

definition example_model :: Model where
  "example_model =
     \<lparr>dir_path = ''data'', m_classes = [''A'', ''B'', ''C''],
      m_model = \<lparr>fc = Dropout_Linear 0.5 512 3, weights = None, training = True\<rparr>,
      m_params = map (\<lambda>n. \<lparr>pname = n, requires_grad = True\<rparr>)
                   (resnet18_parameter_names @ [''fc.1.weight'', ''fc.1.bias'']),
      m_transform = Model_transform,
      m_dataset = example_dataset,
      train_loader = [5, 4, 3, 2], val_loader = [1, 0]\<rparr>"

text \<open>
  Three epochs with validation accuracies of 50, 50 and 75 percent, each ending with its own
  weights.
\<close>

definition example_weights :: "real \<Rightarrow> state_dict" where
  "example_weights x = [(''fc.1.bias'', \<lparr>t_shape = [3], t_data = [x, 0, 0]\<rparr>)]"

definition example_epochs :: "epoch list" where
  "example_epochs =
     [\<lparr>train_batches = [(16, 9), (16, 7)], val_batches = [(16, 8), (4, 2)],
       state_dict_end = example_weights 1\<rparr>,
      \<lparr>train_batches = [(16, 10), (16, 9)], val_batches = [(16, 7), (4, 3)],
       state_dict_end = example_weights 2\<rparr>,
      \<lparr>train_batches = [(16, 12), (16, 11)], val_batches = [(16, 12), (4, 3)],
       state_dict_end = example_weights 3\<rparr>]"

text \<open>
  Checkpoints of a network whose backbone has one entry, with a head of \<open>n\<close> classes stored
  under the names of the dropout-wrapped head or of the bare linear head.
\<close>

definition wrapped_checkpoint :: "nat \<Rightarrow> state_dict" where
  "wrapped_checkpoint n =
     [(''conv1.weight'', \<lparr>t_shape = [1, 1], t_data = [1]\<rparr>),
      (''fc.1.weight'', \<lparr>t_shape = [n, 2], t_data = replicate (n * 2) 0\<rparr>),
      (''fc.1.bias'', \<lparr>t_shape = [n], t_data = replicate n 0\<rparr>)]"

definition bare_checkpoint :: "nat \<Rightarrow> state_dict" where
  "bare_checkpoint n =
     [(''conv1.weight'', \<lparr>t_shape = [1, 1], t_data = [1]\<rparr>),
      (''fc.weight'', \<lparr>t_shape = [n, 2], t_data = replicate (n * 2) 0\<rparr>),
      (''fc.bias'', \<lparr>t_shape = [n], t_data = replicate n 0\<rparr>)]"

text \<open>
  A world for evaluation: images, tensors and generator states are numbers; one file and one
  byte string decode; fixed steps leave the value alone and a randomized step adds its draw;
  the network favours the unit that follows the value of its input modulo 3, and the softmax
  of its rows (\<open>1/4\<close>, \<open>1/2\<close>, \<open>1/4\<close> in some order) is returned without rounding error.
  What \<^verbatim>\<open>torch.load\<close> finds is the argument.
\<close>

definition example_world :: "exn + state_dict \<Rightarrow> (nat, nat) world" where
  "example_world on_disk =
     \<lparr>Image_open = (\<lambda>p. if p = ''gray.png'' then Inr 0
                         else Inl (Exn OSError ''No such file or directory'')),
      Image_open_bytes = (\<lambda>b. if b = [137, 80, 78, 71] then Inr 0
                               else Inl (Exn OSError ''cannot identify image file'')),
      convert_RGB = Inr,
      fixed_step = (\<lambda>s v. v),
      random_step = (\<lambda>s r v. (v + r, Suc r)),
      forward = (\<lambda>net v i. if i = Suc v mod 3 then ln 2 else 0),
      torch_softmax = exact_softmax,
      resnet18_backbone = [(''conv1.weight'', [1, 1])],
      resnet18_in_features = 2,
      cuda_is_available = False,
      torch_load = on_disk\<rparr>"

definition missing_file :: exn where
  "missing_file = Exn OSError ''No such file or directory''"

section \<open>Properties of the dataset index\<close>

lemma scan_classes_skips_missing:
  "scan_classes fs dir ics acc =
   scan_classes fs dir (filter (\<lambda>(i, c). fs (path_join dir c) \<noteq> None) ics) acc"
  by (induction fs dir ics acc rule: scan_classes.induct)
     (auto simp: path_exists_def Let_def listdir_def split: option.splits fsnode.splits)

lemma scan_classes_error_class:
  "scan_classes fs dir ics acc = Inl e \<Longrightarrow> exn_cls e = OSError"
proof (induction fs dir ics acc rule: scan_classes.induct)
  case (1 fs data_dir acc)
  then show ?case by simp
next
  case (2 fs data_dir class_idx class_name rest acc)
  then show ?case
    by (auto simp: path_exists_def Let_def listdir_def
             split: option.splits fsnode.splits if_splits)
qed

lemma scan_files_no_images:
  "\<forall>f \<in> set names. \<not> is_image_file f \<Longrightarrow> scan_files cp i names acc = acc"
  by (induction cp i names acc rule: scan_files.induct) auto

lemma scan_classes_no_images:
  "\<forall>(i, c) \<in> set ics.
      (case fs (path_join dir c) of
         None \<Rightarrow> True
       | Some File \<Rightarrow> False
       | Some (Dir names) \<Rightarrow> list_all (\<lambda>f. \<not> is_image_file f) names)
   \<Longrightarrow> scan_classes fs dir ics acc = Inr acc"
proof (induction fs dir ics acc rule: scan_classes.induct)
  case (1 fs data_dir acc)
  then show ?case by simp
next
  case (2 fs data_dir class_idx class_name rest acc)
  then show ?case
    by (auto simp: path_exists_def Let_def listdir_def scan_files_no_images list_all_iff
             split: option.splits fsnode.splits)
qed

text \<open>
  Claim C4, as amended. Indexing does not fail when zero samples are found: it returns the
  empty index. It never raises \<open>EmptyDatasetError\<close>, whatever the directory holds. A class
  whose subdirectory is missing is skipped without an error: the scan proceeds as if that
  class were not in the list (the other classes keep their indices).
\<close>

theorem index_of_empty_dataset:
  "(no_samples fs dir cls \<longrightarrow>
      SimpleDataset_init fs dir cls tr =
        Inr \<lparr>transform = tr, images = [], labels = [], classes = cls\<rparr>)
   \<and> SimpleDataset_init fs dir cls tr \<noteq> Inl (Exn EmptyDatasetError msg)
   \<and> scan_classes fs dir (enumerate 0 cls) acc =
       scan_classes fs dir
         (filter (\<lambda>(i, c). fs (path_join dir c) \<noteq> None) (enumerate 0 cls)) acc"
proof (intro conjI impI)
  assume "no_samples fs dir cls"
  then have "\<forall>(i, c) \<in> set (enumerate 0 cls).
      (case fs (path_join dir c) of
         None \<Rightarrow> True
       | Some File \<Rightarrow> False
       | Some (Dir names) \<Rightarrow> list_all (\<lambda>f. \<not> is_image_file f) names)"
    by (auto simp: no_samples_def list_all_iff in_set_enumerate_eq)
  then have "scan_classes fs dir (enumerate 0 cls) ([], []) = Inr ([], [])"
    by (rule scan_classes_no_images)
  then show "SimpleDataset_init fs dir cls tr =
               Inr \<lparr>transform = tr, images = [], labels = [], classes = cls\<rparr>"
    by (simp add: SimpleDataset_init_def)
next
  show "SimpleDataset_init fs dir cls tr \<noteq> Inl (Exn EmptyDatasetError msg)"
  proof
    assume a: "SimpleDataset_init fs dir cls tr = Inl (Exn EmptyDatasetError msg)"
    then have "scan_classes fs dir (enumerate 0 cls) ([], []) = Inl (Exn EmptyDatasetError msg)"
      by (cases "scan_classes fs dir (enumerate 0 cls) ([], [])")
         (auto simp: SimpleDataset_init_def)
    from scan_classes_error_class[OF this] show False by simp
  qed
next
  show "scan_classes fs dir (enumerate 0 cls) acc =
        scan_classes fs dir
          (filter (\<lambda>(i, c). fs (path_join dir c) \<noteq> None) (enumerate 0 cls)) acc"
    by (rule scan_classes_skips_missing)
qed

lemma no_samples_empty_fs: "no_samples empty_fs ''data'' [''Safe'', ''Cautious'', ''Dangerous'']"
  by (simp add: no_samples_def empty_fs_def path_join_def is_image_file_def suffix_to_prefix)

theorem index_of_empty_dataset_witness:
  "no_samples empty_fs ''data'' [''Safe'', ''Cautious'', ''Dangerous''] \<and>
   SimpleDataset_init empty_fs ''data'' [''Safe'', ''Cautious'', ''Dangerous''] Model_transform =
     Inr \<lparr>transform = Model_transform, images = [], labels = [],
          classes = [''Safe'', ''Cautious'', ''Dangerous'']\<rparr>"
  using index_of_empty_dataset
          [of empty_fs "''data''" "[''Safe'', ''Cautious'', ''Dangerous'']" Model_transform]
        no_samples_empty_fs
  by blast

text \<open>
  Claim C4 as stated fails: with class directories that hold no image, indexing finds zero
  samples and returns normally, with an empty index.
\<close>

theorem index_of_empty_dataset_counterexample:
  "SimpleDataset_init empty_fs ''data'' [''Safe'', ''Cautious'', ''Dangerous''] () =
     Inr \<lparr>transform = (), images = [], labels = [],
          classes = [''Safe'', ''Cautious'', ''Dangerous'']\<rparr>"
  by (simp add: SimpleDataset_init_def empty_fs_def path_join_def path_exists_def listdir_def
                is_image_file_def suffix_to_prefix Let_def)

text \<open>
  The example of the specification: three images of class 0 and two of class 1, in list
  order; other files are left out, and a missing class directory adds nothing.
\<close>

lemma index_of_example:
  "SimpleDataset_init example_fs ''data'' [''A'', ''missing'', ''B''] () =
     Inr \<lparr>transform = (),
          images = [''data/A/1.jpg'', ''data/A/2.jpeg'', ''data/A/3.png'',
                    ''data/B/x.png'', ''data/B/z.jpg''],
          labels = [0, 0, 0, 2, 2],
          classes = [''A'', ''missing'', ''B'']\<rparr>"
  by (simp add: SimpleDataset_init_def example_fs_def path_join_def path_exists_def listdir_def
                is_image_file_def suffix_to_prefix Let_def)

lemma index_of_file_as_class:
  "SimpleDataset_init example_fs ''data'' [''A'', ''README''] () =
     Inl (Exn OSError ''Not a directory'')"
  by (simp add: SimpleDataset_init_def example_fs_def path_join_def path_exists_def listdir_def
                is_image_file_def suffix_to_prefix Let_def)


section \<open>Properties of the split\<close>

lemma train_size_le: "train_size_of n \<le> n"
  unfolding train_size_of_def train_ratio_def by (simp add: nat_le_iff) linarith

lemma train_size_div: "train_size_of n = (4 * n) div 5"
proof -
  have "\<lfloor>0.8 * real n\<rfloor> = \<lfloor>real_of_int (4 * int n) / real_of_int 5\<rfloor>" by simp
  also have "\<dots> = (4 * int n) div 5" by (rule floor_divide_of_int_eq)
  finally show ?thesis unfolding train_size_of_def train_ratio_def
    by (simp add: nat_div_distrib nat_mult_distrib)
qed

lemma mset_map_nth_perm:
  assumes "mset perm = mset [0..<length xs]"
  shows "mset (map ((!) xs) perm) = mset xs"
proof -
  have "mset (map ((!) xs) perm) = image_mset ((!) xs) (mset perm)" by simp
  also have "\<dots> = mset (map ((!) xs) [0..<length xs])" using assms by simp
  also have "\<dots> = mset xs" by (simp add: map_nth)
  finally show ?thesis .
qed

lemma scan_files_lengths:
  "length (fst acc) = length (snd acc) \<Longrightarrow>
   length (fst (scan_files cp i names acc)) = length (snd (scan_files cp i names acc))"
  by (induction cp i names acc rule: scan_files.induct) auto

lemma scan_classes_lengths:
  "scan_classes fs dir ics acc = Inr res \<Longrightarrow> length (fst acc) = length (snd acc) \<Longrightarrow>
   length (fst res) = length (snd res)"
proof (induction fs dir ics acc rule: scan_classes.induct)
  case (1 fs data_dir acc)
  then show ?case by simp
next
  case (2 fs data_dir class_idx class_name rest acc)
  then show ?case
    by (auto simp: Let_def listdir_def scan_files_lengths
             split: if_splits option.splits fsnode.splits)
qed

lemma SimpleDataset_init_lengths:
  assumes "SimpleDataset_init fs dir cls tr = Inr ds"
  shows "length (labels ds) = length (images ds)"
proof -
  from assms obtain imgs labs where
    sc: "scan_classes fs dir (enumerate 0 cls) ([], []) = Inr (imgs, labs)"
    and ds: "ds = \<lparr>transform = tr, images = imgs, labels = labs, classes = cls\<rparr>"
    by (cases "scan_classes fs dir (enumerate 0 cls) ([], [])")
       (auto simp: SimpleDataset_init_def)
  from scan_classes_lengths[OF sc] ds show ?thesis by simp
qed

text \<open>
  Claim C8. Whatever permutation of the positions the generator draws, \<^verbatim>\<open>setup_data\<close>
  splits the positions of the dataset into two lists without repetition that share no
  position and together hold every position; the samples at those positions are, as a
  multiset, the samples of the dataset. The training part has \<open>\<lfloor>0.8 n\<rfloor> = 4 n div 5\<close>
  positions and the validation part the rest: 80 and 20 for 100 samples.
\<close>

theorem setup_data_partitions:
  assumes sd: "setup_data fs randperm dir cls tr = Inr (dataset, train_set, val_set)"
      and perm: "mset (randperm (SimpleDataset_len dataset)) = mset [0..<SimpleDataset_len dataset]"
  shows "set train_set \<inter> set val_set = {} \<and>
         set train_set \<union> set val_set = {0..<SimpleDataset_len dataset} \<and>
         distinct (train_set @ val_set) \<and>
         mset (map ((!) (samples dataset)) (train_set @ val_set)) = mset (samples dataset) \<and>
         length train_set = (4 * SimpleDataset_len dataset) div 5 \<and>
         length train_set + length val_set = SimpleDataset_len dataset \<and>
         train_size_of 100 = 80 \<and> test_size_of 100 = 20"
proof -
  let ?n = "SimpleDataset_len dataset"
  let ?p = "randperm ?n"
  from sd have init: "SimpleDataset_init fs dir cls tr = Inr dataset"
    by (cases "SimpleDataset_init fs dir cls tr")
       (auto simp: setup_data_def random_split_def Let_def)
  from sd have tv: "train_set = take (train_size_of ?n) ?p"
        "val_set = take (?n - train_size_of ?n) (drop (train_size_of ?n) ?p)"
    by (auto simp: setup_data_def random_split_def Let_def
             split: sum.splits elim!: bind_exn.elims)
  have len: "length ?p = ?n" using perm by (metis length_upt mset_eq_length minus_nat.diff_0)
  have d: "distinct ?p" using perm by (metis distinct_upt mset_eq_imp_distinct_iff)
  have s: "set ?p = {0..<?n}" using perm by (metis mset_eq_setD set_upt)
  have v: "val_set = drop (train_size_of ?n) ?p" using tv len by simp
  have app: "train_set @ val_set = ?p" using tv(1) v by simp
  have ls: "length (samples dataset) = ?n"
    using SimpleDataset_init_lengths[OF init] by (simp add: samples_def SimpleDataset_len_def)
  have "set train_set \<inter> set val_set = {}"
    using d tv(1) v by (simp add: set_take_disj_set_drop_if_distinct)
  moreover have "set train_set \<union> set val_set = {0..<?n}"
    using s app by (metis set_append)
  moreover have "distinct (train_set @ val_set)" using d app by simp
  moreover have "mset (map ((!) (samples dataset)) (train_set @ val_set)) = mset (samples dataset)"
    unfolding app using perm ls by (intro mset_map_nth_perm) simp
  moreover have "length train_set = (4 * ?n) div 5"
    using tv(1) len train_size_le[of ?n] by (simp add: train_size_div)
  moreover have "length train_set + length val_set = ?n"
    using app len by (metis length_append)
  moreover have "train_size_of 100 = 80" "test_size_of 100 = 20"
    by (simp_all add: test_size_of_def train_size_div)
  ultimately show ?thesis by simp
qed

lemma setup_data_example:
  "setup_data example_fs (\<lambda>n. rev [0..<n]) ''data'' [''A'', ''B'', ''C''] Model_transform =
     Inr (example_dataset, [5, 4, 3, 2], [1, 0])"
  by (simp add: setup_data_def SimpleDataset_init_def example_fs_def path_join_def
                path_exists_def listdir_def is_image_file_def suffix_to_prefix Let_def
                SimpleDataset_len_def train_size_div random_split_def example_dataset_def)

theorem setup_data_partitions_witness:
  "setup_data example_fs (\<lambda>n. rev [0..<n]) ''data'' [''A'', ''B'', ''C''] Model_transform =
     Inr (example_dataset, [5, 4, 3, 2], [1, 0]) \<and>
   mset (rev [0..<SimpleDataset_len example_dataset]) = mset [0..<SimpleDataset_len example_dataset] \<and>
   set [5, 4, 3, 2] \<inter> set [1, 0::nat] = {} \<and>
   set [5, 4, 3, 2] \<union> set [1, 0] = {0..<SimpleDataset_len example_dataset} \<and>
   length [5, 4, 3, 2::nat] = (4 * SimpleDataset_len example_dataset) div 5"
proof -
  have p: "mset ((\<lambda>n. rev [0..<n]) (SimpleDataset_len example_dataset)) =
           mset [0..<SimpleDataset_len example_dataset]"
    by simp
  from setup_data_partitions[OF setup_data_example p] setup_data_example p
  show ?thesis by simp
qed


section \<open>Properties of training: freezing and the optimizer\<close>

text \<open>
  Claim C6, as amended. At the start of training, a parameter is trainable exactly when its
  name contains \<open>layer4\<close> or \<open>fc\<close> (on ResNet-18: the last stage and the head; every
  earlier stage is frozen). The optimizer is Adam with learning rate \<open>0.0001\<close>, constructed
  over all the parameters of the network, the frozen ones included.
\<close>

theorem train_setup_freezes_and_optimizes:
  "map pname (m_params (fst (train_setup m))) = map pname (m_params m) \<and>
   map requires_grad (m_params (fst (train_setup m))) =
     map (\<lambda>p. sublist ''layer4'' (pname p) \<or> sublist ''fc'' (pname p)) (m_params m) \<and>
   trainable_names (fst (train_setup m)) =
     filter (\<lambda>n. sublist ''layer4'' n \<or> sublist ''fc'' n) (map pname (m_params m)) \<and>
   opt_params (snd (train_setup m)) = map pname (m_params m) \<and>
   lr (snd (train_setup m)) = 1 / 10000"
  by (simp add: train_setup_def freeze_layers_def Adam_def Let_def trainable_names_def
                filter_map o_def)

lemma Model_init_example:
  "Model_init example_fs (\<lambda>n. rev [0..<n]) resnet18_parameter_names 512 ''data''
     [''A'', ''B'', ''C''] = Inr example_model"
  by (simp add: Model_init_def setup_data_example example_model_def)

lemma trainable_names_example:
  "trainable_names (fst (train_setup example_model)) =
     [
      ''layer4.0.conv1.weight'', ''layer4.0.bn1.weight'', ''layer4.0.bn1.bias'',
      ''layer4.0.conv2.weight'', ''layer4.0.bn2.weight'', ''layer4.0.bn2.bias'',
      ''layer4.0.downsample.0.weight'', ''layer4.0.downsample.1.weight'',
      ''layer4.0.downsample.1.bias'', ''layer4.1.conv1.weight'', ''layer4.1.bn1.weight'',
      ''layer4.1.bn1.bias'', ''layer4.1.conv2.weight'', ''layer4.1.bn2.weight'',
      ''layer4.1.bn2.bias'', ''fc.1.weight'', ''fc.1.bias'']"
  by (simp add: train_setup_def freeze_layers_def trainable_names_def example_model_def
                resnet18_parameter_names_def Let_def sublist_code prefix_code)

text \<open>
  Claim C6 as stated fails: the first convolution of ResNet-18 is frozen, and the optimizer
  is constructed over it all the same.
\<close>

theorem optimizer_over_frozen_counterexample:
  "''conv1.weight'' \<in> set (opt_params (snd (train_setup example_model))) \<and>
   ''conv1.weight'' \<notin> set (trainable_names (fst (train_setup example_model)))"
  by (simp add: trainable_names_example)
     (simp add: train_setup_def freeze_layers_def Adam_def example_model_def
                resnet18_parameter_names_def Let_def)


section \<open>Properties of training: the checkpoint\<close>

lemma epoch_loop_append:
  "epoch_loop st (xs @ ys) =
     (case epoch_loop st xs of
        (st', None) \<Rightarrow> epoch_loop st' ys
      | (st', Some e) \<Rightarrow> (st', Some e))"
  by (induction xs arbitrary: st) (auto split: sum.splits)

lemma epoch_body_Inr:
  assumes "epoch_body st ep = Inr st'"
  shows "st' = (if val_acc_value ep > best_acc st
                then st\<lparr>best_acc := val_acc_value ep, checkpoint := Some (state_dict_end ep),
                        saves := saves st + 1\<rparr>
                else st)"
  using assms unfolding epoch_body_def val_acc_value_def
  by (cases "train_acc_of ep"; cases "val_acc_of ep") (auto split: if_splits)

lemma epoch_body_best:
  assumes "epoch_body st ep = Inr st'"
  shows "best_acc st' = max (best_acc st) (val_acc_value ep)"
  using epoch_body_Inr[OF assms] by (auto simp: max_def)

lemma epoch_loop_best:
  "epoch_loop st xs = (st', None) \<Longrightarrow>
   best_acc st' = fold max (map val_acc_value xs) (best_acc st)"
proof (induction xs arbitrary: st)
  case Nil
  then show ?case by simp
next
  case (Cons x xs)
  then obtain st1 where 1: "epoch_body st x = Inr st1" and 2: "epoch_loop st1 xs = (st', None)"
    by (auto split: sum.splits)
  from Cons.IH[OF 2] epoch_body_best[OF 1] show ?case by (simp add: max.commute)
qed

text \<open>
  Claim C7. Take a run whose first \<open>k\<close> epochs have completed, leaving the state \<open>st\<close>. The
  best-value record of \<open>st\<close> is the largest validation accuracy of those epochs (and 0, the
  value the record starts with). If epoch \<open>k\<close> raises, the run ends there and the checkpoint
  is as \<open>st\<close> has it. Otherwise \<^verbatim>\<open>torch.save\<close> is called at the end of epoch \<open>k\<close> exactly when
  its validation accuracy is strictly above the record; that step stores the weights of the
  epoch and sets the record to its accuracy, and without it the state, checkpoint included,
  is unchanged.
\<close>

theorem checkpoint_written_iff_improved:
  assumes run: "snd (train m on_disk (take k eps)) = (st, None)" and k: "k < length eps"
  shows "best_acc st = Max (set (0 # map val_acc_value (take k eps))) \<and>
     (case epoch_body st (eps ! k) of
        Inl e \<Rightarrow> snd (train m on_disk eps) = (st, Some e)
      | Inr st' \<Rightarrow>
          snd (train m on_disk (take (Suc k) eps)) = (st', None) \<and>
          (saves st' \<noteq> saves st) = (val_acc_value (eps ! k) > best_acc st) \<and>
          st' = (if val_acc_value (eps ! k) > best_acc st
                 then \<lparr>best_acc = val_acc_value (eps ! k),
                       checkpoint = Some (state_dict_end (eps ! k)),
                       saves = saves st + 1\<rparr>
                 else st))"
proof -
  let ?s0 = "\<lparr>best_acc = 0, checkpoint = on_disk, saves = 0\<rparr>"
  have r: "epoch_loop ?s0 (take k eps) = (st, None)" using run by (simp add: train_def)
  have b: "best_acc st = Max (set (0 # map val_acc_value (take k eps)))"
    using epoch_loop_best[OF r] Max.set_eq_fold[of 0 "map val_acc_value (take k eps)"] by simp
  have eps: "eps = take k eps @ (eps ! k) # drop (Suc k) eps"
    using k by (simp add: id_take_nth_drop)
  have sk: "take (Suc k) eps = take k eps @ [eps ! k]"
    using k by (simp add: take_Suc_conv_app_nth)
  show ?thesis
  proof (cases "epoch_body st (eps ! k)")
    case (Inl e)
    have "epoch_loop ?s0 (take k eps @ (eps ! k) # drop (Suc k) eps) = (st, Some e)"
      unfolding epoch_loop_append using r Inl by simp
    then have "snd (train m on_disk eps) = (st, Some e)"
      using eps by (simp add: train_def)
    then show ?thesis using b Inl by simp
  next
    case (Inr st')
    have 1: "snd (train m on_disk (take (Suc k) eps)) = (st', None)"
      unfolding sk train_def epoch_loop_append using r Inr by simp
    note 2 = epoch_body_Inr[OF Inr]
    show ?thesis using b Inr 1 2 by auto
  qed
qed

lemma val_acc_example:
  "map val_acc_value example_epochs = [50, 50, 75]"
  by (simp add: example_epochs_def val_acc_value_def val_acc_of_def accuracy_def)

lemma epoch_body_example_0:
  "epoch_body \<lparr>best_acc = 0, checkpoint = None, saves = 0\<rparr> (example_epochs ! 0) =
     Inr \<lparr>best_acc = 50, checkpoint = Some (example_weights 1), saves = 1\<rparr>"
  by (simp add: example_epochs_def epoch_body_def val_acc_of_def train_acc_of_def accuracy_def)

lemma epoch_body_example_1:
  "epoch_body \<lparr>best_acc = 50, checkpoint = Some (example_weights 1), saves = 1\<rparr>
     (example_epochs ! 1) =
     Inr \<lparr>best_acc = 50, checkpoint = Some (example_weights 1), saves = 1\<rparr>"
  by (simp add: example_epochs_def epoch_body_def val_acc_of_def train_acc_of_def accuracy_def)

lemma train_example_2:
  "snd (train example_model None (take 2 example_epochs)) =
     (\<lparr>best_acc = 50, checkpoint = Some (example_weights 1), saves = 1\<rparr>, None)"
  using epoch_body_example_0 epoch_body_example_1
  by (simp add: train_def example_epochs_def)

theorem checkpoint_written_iff_improved_witness:
  "snd (train example_model None (take 2 example_epochs)) =
     (\<lparr>best_acc = 50, checkpoint = Some (example_weights 1), saves = 1\<rparr>, None) \<and>
   2 < length example_epochs \<and>
   snd (train example_model None (take 3 example_epochs)) =
     (\<lparr>best_acc = 75, checkpoint = Some (example_weights 3), saves = 2\<rparr>, None)"
proof -
  have k: "2 < length example_epochs" by (simp add: example_epochs_def)
  have b: "epoch_body \<lparr>best_acc = 50, checkpoint = Some (example_weights 1), saves = 1\<rparr>
             (example_epochs ! 2) =
           Inr \<lparr>best_acc = 75, checkpoint = Some (example_weights 3), saves = 2\<rparr>"
    by (simp add: example_epochs_def epoch_body_def val_acc_of_def train_acc_of_def
                  accuracy_def)
  from checkpoint_written_iff_improved[OF train_example_2 k] b train_example_2 k
  show ?thesis by (simp add: eval_nat_numeral)
qed


section \<open>Scores and probabilities\<close>





lemma argmax_from_spec:
  assumes "length ys = i" "bi < i" "ys ! bi = b" "\<forall>j<i. ys ! j \<le> b" "\<forall>j<bi. ys ! j < b"
  shows "argmax_from xs i bi b < length (ys @ xs) \<and>
         (\<forall>j<length (ys @ xs). (ys @ xs) ! j \<le> (ys @ xs) ! argmax_from xs i bi b) \<and>
         (\<forall>j<argmax_from xs i bi b. (ys @ xs) ! j < (ys @ xs) ! argmax_from xs i bi b)"
  using assms
proof (induction xs arbitrary: ys i bi b)
  case Nil
  then show ?case by simp
next
  case (Cons x xs)
  show ?case
  proof (cases "x > b")
    case True
    have "argmax_from xs (Suc i) i x < length ((ys @ [x]) @ xs) \<and>
         (\<forall>j<length ((ys @ [x]) @ xs).
             ((ys @ [x]) @ xs) ! j \<le> ((ys @ [x]) @ xs) ! argmax_from xs (Suc i) i x) \<and>
         (\<forall>j<argmax_from xs (Suc i) i x.
             ((ys @ [x]) @ xs) ! j < ((ys @ [x]) @ xs) ! argmax_from xs (Suc i) i x)"
    proof (rule Cons.IH)
      show "length (ys @ [x]) = Suc i" using Cons.prems by simp
      show "i < Suc i" by simp
      show "(ys @ [x]) ! i = x" using Cons.prems(1) by (simp add: nth_append)
      show "\<forall>j<Suc i. (ys @ [x]) ! j \<le> x"
        using Cons.prems True
        by (auto simp: nth_append less_Suc_eq intro: order_trans less_imp_le)
      show "\<forall>j<i. (ys @ [x]) ! j < x"
        using Cons.prems True by (auto simp: nth_append intro: le_less_trans)
    qed
    then show ?thesis using True by simp
  next
    case False
    have "argmax_from xs (Suc i) bi b < length ((ys @ [x]) @ xs) \<and>
         (\<forall>j<length ((ys @ [x]) @ xs).
             ((ys @ [x]) @ xs) ! j \<le> ((ys @ [x]) @ xs) ! argmax_from xs (Suc i) bi b) \<and>
         (\<forall>j<argmax_from xs (Suc i) bi b.
             ((ys @ [x]) @ xs) ! j < ((ys @ [x]) @ xs) ! argmax_from xs (Suc i) bi b)"
    proof (rule Cons.IH)
      show "length (ys @ [x]) = Suc i" using Cons.prems by simp
      show "bi < Suc i" using Cons.prems by simp
      show "(ys @ [x]) ! bi = b" using Cons.prems by (simp add: nth_append)
      show "\<forall>j<Suc i. (ys @ [x]) ! j \<le> b"
        using Cons.prems False by (auto simp: nth_append less_Suc_eq)
      show "\<forall>j<bi. (ys @ [x]) ! j < b"
        using Cons.prems by (auto simp: nth_append)
    qed
    then show ?thesis using False by simp
  qed
qed

text \<open>\<open>argmax\<close> is the first index at which the list is maximal.\<close>

lemma argmax_first_max:
  assumes "xs \<noteq> []"
  shows "argmax xs < length xs \<and> (\<forall>j<length xs. xs ! j \<le> xs ! argmax xs) \<and>
         (\<forall>j<argmax xs. xs ! j < xs ! argmax xs)"
proof -
  from assms obtain x rest where xs: "xs = x # rest" by (cases xs) auto
  have "argmax_from rest 1 0 x < length ([x] @ rest) \<and>
         (\<forall>j<length ([x] @ rest). ([x] @ rest) ! j \<le> ([x] @ rest) ! argmax_from rest 1 0 x) \<and>
         (\<forall>j<argmax_from rest 1 0 x. ([x] @ rest) ! j < ([x] @ rest) ! argmax_from rest 1 0 x)"
    by (rule argmax_from_spec) auto
  then show ?thesis using xs by (simp add: argmax_def)
qed

lemma argmax_Max:
  assumes "xs \<noteq> []"
  shows "xs ! argmax xs = Max (set xs)"
proof (rule sym, rule Max_eqI)
  show "finite (set xs)" by simp
  show "\<And>y. y \<in> set xs \<Longrightarrow> y \<le> xs ! argmax xs"
    using argmax_first_max[OF assms] by (auto simp: in_set_conv_nth)
  show "xs ! argmax xs \<in> set xs"
    using argmax_first_max[OF assms] by simp
qed




text \<open>
  The contract admits rows as single precision returns them: for three equal scores
  \<^verbatim>\<open>torch.softmax\<close> returns three times the number \<open>11184811 / 33554432\<close> next to \<open>1/3\<close>,
  whose sum is not 1.
\<close>

lemma softmax_contract_rounded_row:
  "softmax_contract [0, 0, 0]
     [11184811 / 33554432, 11184811 / 33554432, 11184811 / 33554432] \<and>
   sum_list [11184811 / 33554432, 11184811 / 33554432, 11184811 / 33554432 :: real] \<noteq> 1"
  by (simp add: softmax_contract_def exact_softmax_def)

text \<open>
  It also admits a row in which rounding gives two different scores the same number. The
  first largest number of such a row stands before the first largest score, so the index that
  \<^verbatim>\<open>torch.max\<close> finds on the scores is an index of a largest probability, not always the
  first one.
\<close>

lemma softmax_contract_tied_row:
  "softmax_contract [0, ln (1000001 / 1000000), 0] [1 / 3, 1 / 3, 1 / 3] \<and>
   argmax [0, ln (1000001 / 1000000), 0] = 1 \<and>
   argmax [1 / 3, 1 / 3, 1 / 3] = 0"
  by (simp add: softmax_contract_def exact_softmax_def argmax_def)





section \<open>The lazy load\<close>

lemma load_state_dict_fc: "load_state_dict w net sd = Inr net' \<Longrightarrow> fc net' = fc net"
  by (auto simp: load_state_dict_def Let_def split: if_splits)

lemma bind_load_fc:
  "bind_exn (torch_load w) (load_state_dict w net) = Inr net' \<Longrightarrow> fc net' = fc net"
  by (cases "torch_load w") (auto dest: load_state_dict_fc)

lemma load_model_initialised:
  assumes "MODEL st = None" "fst (load_model w st) = None"
  shows "initialised (snd (load_model w st))"
  using assms
  by (auto simp: load_model_def Let_def initialised_def finish_load_def
           split: sum.splits if_splits dest!: bind_load_fc)

text \<open>Whether it returns or raises, \<^verbatim>\<open>load_model\<close> leaves \<^verbatim>\<open>MODEL\<close> set.\<close>

lemma load_model_sets_MODEL: "MODEL (snd (load_model w st)) \<noteq> None"
  by (auto simp: load_model_def Let_def finish_load_def split: sum.splits option.splits)

lemma load_model_reads:
  "MODEL st = None \<Longrightarrow>
   reads (snd (load_model w st)) = reads st + 1 \<or> reads (snd (load_model w st)) = reads st + 2"
  by (auto simp: load_model_def Let_def finish_load_def split: sum.splits option.splits)

lemma cold_MODEL: "MODEL (cold r) = None"
  by (simp add: cold_def)

text \<open>
  The two shapes, tried in order: a checkpoint with the bare linear head is restored by the
  first attempt, one with the dropout-wrapped head by the second attempt, after a second
  \<^verbatim>\<open>torch.load\<close>.
\<close>

lemma load_model_bare:
  "load_model (example_world (Inr (bare_checkpoint 3))) (cold 0) =
     (None,
      \<lparr>MODEL = Some \<lparr>fc = Linear 2 3, weights = Some (bare_checkpoint 3), training = False\<rparr>,
       DEVICE = Some Cpu, TRANSFORM = Some inference_transform, rng = 0, reads = 1\<rparr>)"
  by (simp add: load_model_def cold_def example_world_def bare_checkpoint_def resnet18_def
                load_state_dict_def expected_entries_def finish_load_def Let_def)

lemma load_model_wrapped:
  "load_model (example_world (Inr (wrapped_checkpoint 3))) (cold 0) =
     (None,
      \<lparr>MODEL = Some \<lparr>fc = Dropout_Linear 0.5 2 3, weights = Some (wrapped_checkpoint 3),
                     training = False\<rparr>,
       DEVICE = Some Cpu, TRANSFORM = Some inference_transform, rng = 0, reads = 2\<rparr>)"
  by (simp add: load_model_def cold_def example_world_def wrapped_checkpoint_def resnet18_def
                load_state_dict_def expected_entries_def finish_load_def Let_def)

lemma load_model_neither:
  "load_model (example_world (Inr (wrapped_checkpoint 5))) (cold 0) =
     (Some (Exn RuntimeError ''Error(s) in loading state_dict for ResNet''),
      \<lparr>MODEL = Some \<lparr>fc = Dropout_Linear 0.5 2 3, weights = None, training = True\<rparr>,
       DEVICE = Some Cpu, TRANSFORM = None, rng = 0, reads = 2\<rparr>)"
  by (simp add: load_model_def cold_def example_world_def wrapped_checkpoint_def resnet18_def
                load_state_dict_def expected_entries_def finish_load_def Let_def)

lemma load_model_missing:
  "load_model (example_world (Inl missing_file)) (cold 0) =
     (Some missing_file,
      \<lparr>MODEL = Some \<lparr>fc = Linear 2 3, weights = None, training = True\<rparr>,
       DEVICE = Some Cpu, TRANSFORM = None, rng = 0, reads = 1\<rparr>)"
  by (simp add: load_model_def cold_def example_world_def resnet18_def missing_file_def
                load_state_dict_def expected_entries_def finish_load_def Let_def)

text \<open>
  Claim C3: at a checkpoint whose head has five classes, neither shape matches. The second
  \<^verbatim>\<open>load_state_dict\<close> raises \<^verbatim>\<open>RuntimeError\<close> inside \<^verbatim>\<open>load_model\<close>, which \<^verbatim>\<open>predict\<close>
  calls before its \<^verbatim>\<open>try\<close>: the exception leaves \<^verbatim>\<open>predict\<close>, and no result dictionary is
  returned. The globals are left with \<^verbatim>\<open>MODEL\<close> set and \<^verbatim>\<open>TRANSFORM\<close> unset.
\<close>

theorem predict_raises_when_no_shape_matches:
  "predict (example_world (Inr (wrapped_checkpoint 5))) (cold 0) (PathInput ''gray.png'')
     [''safe'', ''too_close'', ''danger''] =
     (Inl (Exn RuntimeError ''Error(s) in loading state_dict for ResNet''),
      \<lparr>MODEL = Some \<lparr>fc = Dropout_Linear 0.5 2 3, weights = None, training = True\<rparr>,
       DEVICE = Some Cpu, TRANSFORM = None, rng = 0, reads = 2\<rparr>)"
  by (simp add: predict_def cold_MODEL load_model_neither)

text \<open>In general: whatever \<^verbatim>\<open>load_model\<close> raises on a cold service leaves \<^verbatim>\<open>predict\<close>.\<close>

lemma predict_propagates_load_error:
  "MODEL st = None \<Longrightarrow> fst (load_model w st) = Some e \<Longrightarrow> fst (predict w st inp cls) = Inl e"
  by (cases "load_model w st") (simp add: predict_def)

text \<open>
  The call after a failed load finds \<^verbatim>\<open>MODEL\<close> set, does not load again, and fails inside
  the \<^verbatim>\<open>try\<close> on the unset \<^verbatim>\<open>TRANSFORM\<close>.
\<close>

lemma predict_after_failed_load:
  "fst (predict (example_world (Inr (wrapped_checkpoint 5)))
         (snd (load_model (example_world (Inr (wrapped_checkpoint 5))) (cold 0)))
         (PathInput ''gray.png'') [''safe'', ''too_close'', ''danger'']) =
     Inr (error_result not_callable)"
  by (simp add: load_model_neither predict_def)
     (simp add: predict_try_def read_image_def example_world_def)


section \<open>The inference path\<close>

lemma Compose_fixed:
  "list_all (\<lambda>s. \<not> randomized s) steps \<Longrightarrow>
   Compose_call w steps (v, r) = (fold (fixed_step w) steps v, r)"
  unfolding Compose_call_def
  by (induction steps arbitrary: v) (auto simp: apply_step_def)

lemma inference_fixed: "list_all (\<lambda>s. \<not> randomized s) inference_transform"
  by (simp add: inference_transform_def)

text \<open>
  The pipeline of the service: it starts with the resize to 224 by 224, has no crop and no
  randomized step, and its result does not depend on the state of the random generator, which
  it leaves as it found it.
\<close>

lemma service_preprocessing_deterministic:
  "hd inference_transform = Resize 224 224 \<and>
   \<not> list_ex is_crop inference_transform \<and>
   \<not> list_ex randomized inference_transform \<and>
   fst (Compose_call w inference_transform (img, r1)) =
     fst (Compose_call w inference_transform (img, r2)) \<and>
   snd (Compose_call w inference_transform (img, r1)) = r1"
  by (simp add: Compose_fixed[OF inference_fixed]) (simp add: inference_transform_def)




lemma after_load_wrapped:
  "after_load (example_world (Inr (wrapped_checkpoint 3))) (cold 0) =
     (None,
      \<lparr>MODEL = Some \<lparr>fc = Dropout_Linear 0.5 2 3, weights = Some (wrapped_checkpoint 3),
                     training = False\<rparr>,
       DEVICE = Some Cpu, TRANSFORM = Some inference_transform, rng = 0, reads = 2\<rparr>)"
  by (simp add: after_load_def cold_MODEL load_model_wrapped)


lemma predict_example:
  "predict (example_world (Inr (wrapped_checkpoint 3))) (cold 0) (PathInput ''gray.png'')
     [''safe'', ''too_close'', ''danger''] =
     (Inr [(''prediction'', PyStr ''too_close''), (''confidence'', PyFloat (1 / 2)),
           (''all_probabilities'',
            PyDict [(''safe'', 1 / 4), (''too_close'', 1 / 2), (''danger'', 1 / 4)])],
      \<lparr>MODEL = Some \<lparr>fc = Dropout_Linear 0.5 2 3, weights = Some (wrapped_checkpoint 3),
                     training = False\<rparr>,
       DEVICE = Some Cpu, TRANSFORM = Some inference_transform, rng = 0, reads = 2\<rparr>)"
  by (simp add: predict_def cold_MODEL load_model_wrapped)
     (simp add: predict_try_def read_image_def example_world_def Compose_call_def
                apply_step_def inference_transform_def net_outputs_def upt_rec exact_softmax_def
                argmax_def list_get_def all_probs_of_def Let_def)






text \<open>
  An input that fails to decode, on a service that is initialised or whose lazy load does not
  raise: the exception is raised inside the \<^verbatim>\<open>try\<close>, and \<^verbatim>\<open>predict\<close> returns the error
  result, with the message of the exception, no prediction, confidence 0.0 and an empty
  distribution.
\<close>

lemma predict_decode_failure:
  assumes r: "read_image w inp = Inl e"
      and rdy: "fst (after_load w st) = None"
  shows "predict w st inp cls = (Inr (error_result e), snd (after_load w st)) \<and>
         dict_get (error_result e) ''error'' = Some (PyStr (str_of_exn e)) \<and>
         dict_get (error_result e) ''prediction'' = Some PyNone \<and>
         dict_get (error_result e) ''confidence'' = Some (PyFloat 0) \<and>
         dict_get (error_result e) ''all_probabilities'' = Some (PyDict [])"
proof -
  obtain st1 where st1: "after_load w st = (None, st1)"
    using rdy by (cases "after_load w st") auto
  have "predict_try w st1 inp cls = (Inl e, st1)" using r by (simp add: predict_try_def)
  then show ?thesis using st1
    by (simp add: predict_def after_load_def error_result_def dict_get_def)
qed

lemma read_image_bad_bytes:
  "read_image (example_world on_disk) (BytesInput [255, 216]) =
     Inl (Exn OSError ''cannot identify image file'')"
  by (simp add: read_image_def example_world_def)

lemma predict_decode_failure_example:
  "fst (predict (example_world (Inr (wrapped_checkpoint 3))) (cold 0) (BytesInput [255, 216])
          [''safe'', ''too_close'', ''danger'']) =
     Inr [(''error'', PyStr ''cannot identify image file''), (''prediction'', PyNone),
          (''confidence'', PyFloat 0), (''all_probabilities'', PyDict [])]"
proof -
  let ?w = "example_world (Inr (wrapped_checkpoint 3))"
  have r: "read_image ?w (BytesInput [255, 216]) = Inl (Exn OSError ''cannot identify image file'')"
    by (rule read_image_bad_bytes)
  have a: "fst (after_load ?w (cold 0)) = None" by (simp add: after_load_wrapped)
  from predict_decode_failure[OF r a, of "[''safe'', ''too_close'', ''danger'']"]
  show ?thesis by (simp add: error_result_def)
qed

text \<open>
  Claim C2: an input that fails to decode, on the first call of a process whose checkpoint
  file is missing. \<^verbatim>\<open>predict\<close> calls \<^verbatim>\<open>load_model\<close> before its \<^verbatim>\<open>try\<close>; \<^verbatim>\<open>torch.load\<close>
  raises an error that is not a \<^verbatim>\<open>RuntimeError\<close>, which leaves \<^verbatim>\<open>load_model\<close> and then
  \<^verbatim>\<open>predict\<close>: no error result is returned. The call after it finds \<^verbatim>\<open>MODEL\<close> set, skips
  the load and returns an error result for the unset \<^verbatim>\<open>TRANSFORM\<close>.
\<close>

theorem predict_raises_before_decoding:
  "read_image (example_world (Inl missing_file)) (BytesInput [255, 216]) =
     Inl (Exn OSError ''cannot identify image file'') \<and>
   predict (example_world (Inl missing_file)) (cold 0) (BytesInput [255, 216])
     [''safe'', ''too_close'', ''danger''] =
     (Inl missing_file,
      \<lparr>MODEL = Some \<lparr>fc = Linear 2 3, weights = None, training = True\<rparr>,
       DEVICE = Some Cpu, TRANSFORM = None, rng = 0, reads = 1\<rparr>)"
  by (simp add: read_image_bad_bytes predict_def cold_MODEL load_model_missing)


section \<open>Preprocessing of Model.predict\<close>

lemma Model_predict_uses_training_pipeline:
  "Model_init fs randperm backbone fc_in dir cls = Inr m \<Longrightarrow>
   m_transform m = Model_transform \<and>
   filter randomized (m_transform m) =
     [RandomCrop 224, RandomHorizontalFlip 0.5, RandomRotation 15,
      ColorJitter 0.4 0.4 0.4 0.1, RandomGrayscale 0.1] \<and>
   hd (m_transform m) = Resize 256 256"
  by (cases "setup_data fs randperm dir cls Model_transform")
     (auto simp: Model_init_def Model_transform_def)

text \<open>
  Claim C5: \<^verbatim>\<open>Model.predict\<close> preprocesses with \<^verbatim>\<open>self.transform\<close>, the training pipeline with
  its random crop and its four other randomized steps. On the same image file, two states of
  the random generator give two different predictions.
\<close>

theorem Model_predict_depends_on_generator:
  "m_transform example_model = Model_transform \<and>
   list_ex is_crop (m_transform example_model) \<and>
   list_ex randomized (m_transform example_model) \<and>
   Model_predict (example_world (Inl missing_file)) example_model 0 ''gray.png'' =
     Inr ((''C'', 1 / 2), 5) \<and>
   Model_predict (example_world (Inl missing_file)) example_model 1 ''gray.png'' =
     Inr ((''B'', 1 / 2), 6)"
  by (simp add: example_model_def Model_transform_def)
     (simp add: Model_predict_def example_world_def Compose_call_def apply_step_def
                net_outputs_def upt_rec exact_softmax_def argmax_def list_get_def Let_def)


section \<open>Reads of the checkpoint, and no change of the globals afterwards\<close>

text \<open>
  For calls that follow one another: a call on a service whose \<^verbatim>\<open>MODEL\<close> is set does not
  load and leaves every global as it is; on an initialised service it leaves the whole state,
  generator included, as it is. A call on a cold service reads the checkpoint once or twice.
\<close>

lemma predict_try_keeps_globals:
  "MODEL (snd (predict_try w st inp cls)) = MODEL st \<and>
   DEVICE (snd (predict_try w st inp cls)) = DEVICE st \<and>
   TRANSFORM (snd (predict_try w st inp cls)) = TRANSFORM st \<and>
   reads (snd (predict_try w st inp cls)) = reads st"
  by (auto simp: predict_try_def Let_def split: sum.splits option.splits prod.splits)

lemma warm_predict_keeps_globals:
  assumes "MODEL st \<noteq> None"
  shows "MODEL (snd (predict w st inp cls)) = MODEL st \<and>
         DEVICE (snd (predict w st inp cls)) = DEVICE st \<and>
         TRANSFORM (snd (predict w st inp cls)) = TRANSFORM st \<and>
         reads (snd (predict w st inp cls)) = reads st"
proof -
  obtain res st2 where pt: "predict_try w st inp cls = (res, st2)"
    by (cases "predict_try w st inp cls")
  from assms obtain net where net: "MODEL st = Some net" by auto
  have "snd (predict w st inp cls) = st2"
    using net pt by (cases res) (simp_all add: predict_def)
  then show ?thesis using predict_try_keeps_globals[of w st inp cls] pt by simp
qed

lemma initialised_predict_keeps_state:
  assumes "initialised st"
  shows "snd (predict w st inp cls) = st"
proof -
  from assms obtain net where net: "MODEL st = Some net"
     "TRANSFORM st = Some inference_transform"
    by (auto simp: initialised_def split: option.splits)
  have c: "\<And>img. Compose_call w inference_transform (img, rng st) =
             (fold (fixed_step w) inference_transform img, rng st)"
    by (rule Compose_fixed[OF inference_fixed])
  have "snd (predict_try w st inp cls) = st"
    using net c by (auto simp: predict_try_def Let_def split: sum.splits)
  then show ?thesis using net
    by (cases "predict_try w st inp cls") (auto simp: predict_def split: sum.splits)
qed

lemma cold_predict_reads:
  "reads (snd (predict w (cold r) inp cls)) = 1 \<or> reads (snd (predict w (cold r) inp cls)) = 2"
proof -
  obtain e st1 where lm: "load_model w (cold r) = (e, st1)" by (cases "load_model w (cold r)")
  have r1: "reads st1 = 1 \<or> reads st1 = 2"
    using load_model_reads[of "cold r" w] lm by (simp add: cold_def numeral_2_eq_2)
  show ?thesis
  proof (cases e)
    case None
    obtain res st2 where pt: "predict_try w st1 inp cls = (res, st2)"
      by (cases "predict_try w st1 inp cls")
    have "snd (predict w (cold r) inp cls) = st2"
      using lm None pt by (cases res) (simp_all add: predict_def cold_MODEL)
    then show ?thesis using predict_try_keeps_globals[of w st1 inp cls] pt r1 by simp
  next
    case (Some ex)
    then show ?thesis using lm r1 by (simp add: predict_def cold_MODEL)
  qed
qed


text \<open>
  Claim C9: one call on a cold service, with the checkpoint that the training script writes
  (the head wrapped with dropout, entries \<open>fc.1.weight\<close> and \<open>fc.1.bias\<close>). The first
  \<^verbatim>\<open>torch.load\<close> (line 25) feeds the bare head, \<^verbatim>\<open>load_state_dict\<close> raises \<^verbatim>\<open>RuntimeError\<close>,
  and the handler calls \<^verbatim>\<open>torch.load\<close> again (line 31): the checkpoint is read twice before
  the call returns its prediction. The second call reads nothing and leaves the globals as
  they are.
\<close>

theorem cold_predict_reads_checkpoint_twice:
  "reads (cold (0::nat)) = 0 \<and>
   fst (predict (example_world (Inr (wrapped_checkpoint 3))) (cold 0) (PathInput ''gray.png'')
          [''safe'', ''too_close'', ''danger'']) =
     Inr [(''prediction'', PyStr ''too_close''), (''confidence'', PyFloat (1 / 2)),
          (''all_probabilities'',
           PyDict [(''safe'', 1 / 4), (''too_close'', 1 / 2), (''danger'', 1 / 4)])] \<and>
   reads (snd (predict (example_world (Inr (wrapped_checkpoint 3))) (cold 0)
                 (PathInput ''gray.png'') [''safe'', ''too_close'', ''danger''])) = 2 \<and>
   snd (predict (example_world (Inr (wrapped_checkpoint 3)))
          (snd (predict (example_world (Inr (wrapped_checkpoint 3))) (cold 0)
                  (PathInput ''gray.png'') [''safe'', ''too_close'', ''danger'']))
          (PathInput ''gray.png'') [''safe'', ''too_close'', ''danger'']) =
     snd (predict (example_world (Inr (wrapped_checkpoint 3))) (cold 0)
            (PathInput ''gray.png'') [''safe'', ''too_close'', ''danger''])"
proof -
  let ?w = "example_world (Inr (wrapped_checkpoint 3))"
  let ?p = "predict ?w (cold 0) (PathInput ''gray.png'') [''safe'', ''too_close'', ''danger'']"
  have i: "initialised (snd ?p)" by (simp add: predict_example initialised_def)
  have "snd (predict ?w (snd ?p) (PathInput ''gray.png'') [''safe'', ''too_close'', ''danger''])
          = snd ?p"
    by (rule initialised_predict_keeps_state[OF i])
  moreover have "reads (cold (0::nat)) = 0" by (simp add: cold_def)
  ultimately show ?thesis by (simp add: predict_example)
qed


section \<open>The shape of the result\<close>

text \<open>
  Claim C10. Every dictionary that \<^verbatim>\<open>predict\<close> returns (and \<^verbatim>\<open>main\<close> hands on) has the keys
  \<open>prediction\<close>, \<open>confidence\<close> and \<open>all_probabilities\<close>. It has the key \<open>error\<close> exactly
  when the body of the \<^verbatim>\<open>try\<close> raised; then the prediction is \<^verbatim>\<open>None\<close>, the confidence 0.0
  and the distribution empty, and otherwise the dictionary consists of a label, a number and
  a distribution under the three keys.
\<close>

theorem result_has_error_iff_failed:
  assumes "main w st inp cls = (Inr d, st')"
  shows "{''prediction'', ''confidence'', ''all_probabilities''} \<subseteq> dict_keys d \<and>
         ((''error'' \<in> dict_keys d) =
            (\<exists>e. fst (predict_try w (snd (after_load w st)) inp cls) = Inl e)) \<and>
         (if ''error'' \<in> dict_keys d
          then dict_get d ''prediction'' = Some PyNone \<and>
               dict_get d ''confidence'' = Some (PyFloat 0.0) \<and>
               dict_get d ''all_probabilities'' = Some (PyDict [])
          else (\<exists>p c ps. d = [(''prediction'', PyStr p), (''confidence'', PyFloat c),
                              (''all_probabilities'', PyDict ps)]))"
proof -
  obtain st1 where st1: "after_load w st = (None, st1)"
    using assms
    by (cases "after_load w st")
       (auto simp: main_def predict_def after_load_def split: option.splits)
  obtain res st2 where pt: "predict_try w st1 inp cls = (res, st2)"
    by (cases "predict_try w st1 inp cls")
  show ?thesis
  proof (cases res)
    case (Inl e)
    then have "d = error_result e" using assms st1 pt
      by (simp add: main_def predict_def after_load_def)
    then show ?thesis using st1 pt Inl
      by (simp add: error_result_def dict_keys_def dict_get_def)
  next
    case (Inr r)
    then have dr: "d = r" using assms st1 pt
      by (simp add: main_def predict_def after_load_def)
    from pt Inr obtain p c ps where
      "r = [(''prediction'', PyStr p), (''confidence'', PyFloat c),
            (''all_probabilities'', PyDict ps)]"
      by (auto simp: predict_try_def Let_def list_get_def
               split: sum.splits option.splits prod.splits if_splits)
    then show ?thesis using st1 pt Inr dr
      by (auto simp: dict_keys_def dict_get_def)
  qed
qed

lemma main_example_short_labels:
  "main (example_world (Inr (bare_checkpoint 3))) (cold 0) (PathInput ''gray.png'') [''safe''] =
     (Inr (error_result (Exn IndexError ''list index out of range'')),
      \<lparr>MODEL = Some \<lparr>fc = Linear 2 3, weights = Some (bare_checkpoint 3), training = False\<rparr>,
       DEVICE = Some Cpu, TRANSFORM = Some inference_transform, rng = 0, reads = 1\<rparr>)"
  by (simp add: main_def predict_def cold_MODEL load_model_bare)
     (simp add: predict_try_def read_image_def example_world_def Compose_call_def
                apply_step_def inference_transform_def net_outputs_def upt_rec exact_softmax_def
                argmax_def list_get_def all_probs_of_def Let_def)

theorem result_has_error_iff_failed_witness:
  "main (example_world (Inr (bare_checkpoint 3))) (cold 0) (PathInput ''gray.png'') [''safe''] =
     (Inr (error_result (Exn IndexError ''list index out of range'')),
      \<lparr>MODEL = Some \<lparr>fc = Linear 2 3, weights = Some (bare_checkpoint 3), training = False\<rparr>,
       DEVICE = Some Cpu, TRANSFORM = Some inference_transform, rng = 0, reads = 1\<rparr>) \<and>
   ''error'' \<in> dict_keys (error_result (Exn IndexError ''list index out of range'')) \<and>
   (\<exists>e. fst (predict_try (example_world (Inr (bare_checkpoint 3)))
              (snd (after_load (example_world (Inr (bare_checkpoint 3))) (cold 0)))
              (PathInput ''gray.png'') [''safe'']) = Inl e)"
proof -
  have k: "''error'' \<in> dict_keys (error_result (Exn IndexError ''list index out of range''))"
    by (simp add: dict_keys_def error_result_def)
  from result_has_error_iff_failed[OF main_example_short_labels] k main_example_short_labels
  show ?thesis by blast
qed

end
